theory Spec2Isabelle
  imports Main
begin

section \<open>Jellyfin library statistics: a model of \<open>jellyfin_library_stats.py\<close>\<close>

text \<open>
  The cog reads a key-value configuration, asks a Jellyfin server for its media folders,
  counts the items of every folder that is not a playlist collection, and edits one
  tracked chat message with the counts. A background loop repeats this.

  The model is a shallow embedding. Everything the cog receives from outside (HTTP
  responses, channel and message look-ups, the clock) is a field of a \<open>world\<close> record,
  so that a run is a pure function of the configuration and the world. Every \<open>return\<close>
  and every \<open>except\<close> branch of the source is a branch of the model; the log line written
  on a failing branch is kept as an error value, since the Python value (\<open>None\<close> or
  \<open>False\<close>) is the same on all of them.
\<close>

subsection \<open>Python strings\<close>

text \<open>
  Strings are lists of characters. \<open>lower\<close> is \<open>str.lower\<close> on the ASCII letters, which
  is all that the two tests of the source (\<open>"playlist" in name.lower()\<close> and
  \<open>"tv" in collection_type\<close>) look for; other characters are left as they are.
\<close>

definition lower_char :: "char \<Rightarrow> char" where
  "lower_char c =
     (case map_of (zip ''ABCDEFGHIJKLMNOPQRSTUVWXYZ'' ''abcdefghijklmnopqrstuvwxyz'') c of
        Some d \<Rightarrow> d
      | None \<Rightarrow> c)"

definition lower :: "string \<Rightarrow> string" where
  "lower s = map lower_char s"

text \<open>\<open>startswith p s\<close> is \<open>s.startswith(p)\<close>; \<open>contains sub s\<close> is \<open>sub in s\<close>.\<close>

fun startswith :: "string \<Rightarrow> string \<Rightarrow> bool" where
  "startswith [] s = True"
| "startswith (p # ps) [] = False"
| "startswith (p # ps) (c # cs) = (p = c \<and> startswith ps cs)"

fun contains :: "string \<Rightarrow> string \<Rightarrow> bool" where
  "contains sub [] = (sub = [])"
| "contains sub (c # cs) = (startswith sub (c # cs) \<or> contains sub cs)"

text \<open>\<open>endswith_slash s\<close> is \<open>s.endswith("/")\<close>; \<open>s[:-1]\<close> is \<open>butlast s\<close>.\<close>

definition endswith_slash :: "string \<Rightarrow> bool" where
  "endswith_slash s = (s \<noteq> [] \<and> last s = CHR ''/'')"

text \<open>\<open>str(n)\<close> for an integer.\<close>

fun digits :: "nat \<Rightarrow> string" where
  "digits n =
     (if n < 10 then [''0123456789'' ! n] else digits (n div 10) @ [''0123456789'' ! (n mod 10)])"

definition str_int :: "int \<Rightarrow> string" where
  "str_int i = (if i < 0 then CHR ''-'' # digits (nat (- i)) else digits (nat i))"

text \<open>Truthiness of a configuration value: \<open>None\<close>, the empty string and \<open>0\<close> are false.\<close>

definition truthy_str :: "string option \<Rightarrow> bool" where
  "truthy_str v = (case v of None \<Rightarrow> False | Some s \<Rightarrow> s \<noteq> [])"

definition truthy_int :: "int option \<Rightarrow> bool" where
  "truthy_int v = (case v of None \<Rightarrow> False | Some n \<Rightarrow> n \<noteq> 0)"

subsection \<open>The statistics dictionary\<close>

text \<open>
  \<open>library_stats\<close> is a Python dict from library name to count. A dict keeps the order
  of first insertion and an assignment to a key already present replaces its value in
  place, which decides the order of the fields of the published message.
\<close>

type_synonym stats = "(string \<times> int) list"

fun dict_set :: "string \<Rightarrow> int \<Rightarrow> stats \<Rightarrow> stats" where
  "dict_set k v [] = [(k, v)]"
| "dict_set k v ((k', v') # kvs) =
     (if k' = k then (k, v) # kvs else (k', v') # dict_set k v kvs)"

subsection \<open>Configuration, server responses, collaborators\<close>

record config =
  jellyfin_url :: "string option"
  jellyfin_api_key :: "string option"
  update_channel_id :: "int option"
  update_message_id :: "int option"
  last_update :: "string option"

text \<open>
  A field of a JSON object read with \<open>.get\<close>: absent, a string, or some other JSON value
  (\<open>null\<close>, a number, ...), on which \<open>.lower()\<close> raises \<open>AttributeError\<close>. \<open>lib_id\<close> is the
  text the f-string prints for \<open>library.get('Id')\<close>. An entry of \<open>Items\<close> that is not an
  object raises at \<open>library.get\<close>, before anything is done for it, and behaves as an
  entry whose name is not a string.
\<close>

datatype jfield = Absent | JStr string | JOther

record library =
  lib_id :: string
  lib_name :: jfield
  lib_collection_type :: jfield

text \<open>
  \<open>session.get\<close> either raises or yields a response with a status, whose \<open>json()\<close> either
  raises (or is not an object of the expected shape) or parses. \<open>Folders libs\<close> is a body
  whose \<open>Items\<close> is \<open>libs\<close> (\<open>[]\<close> when the key is missing); \<open>ItemsData c\<close> is a body whose
  \<open>TotalRecordCount\<close> is \<open>c\<close> (\<open>None\<close> when the key is missing).
\<close>

datatype 'b http_result = Raises | Response int 'b

datatype folders_body = FoldersUnparsable | Folders "library list"

datatype items_body = ItemsUnparsable | ItemsData "int option"

text \<open>A request is its URL and the value of the \<open>X-Emby-Token\<close> header.\<close>

type_synonym request = "string \<times> string"

record embed =
  embed_title :: string
  embed_description :: string
  embed_fields :: "(string \<times> string) list"

datatype lookup = Found | NotFound | LookupFailed

datatype edit_result = Edited | EditNotFound | EditFailed

text \<open>
  The world of one run. \<open>http_items n\<close> answers the \<open>n\<close>-th item request of the run, so that
  two requests for the same URL may be answered differently. \<open>store_raises\<close> says that
  reading the configuration store raises; the reads of \<open>update_stats\<close> are outside its
  \<open>try\<close>. \<open>now_display\<close> and \<open>now_iso\<close> are \<open>datetime.now()\<close> as formatted for the message
  and as stored.
\<close>

record world =
  store_raises :: bool
  http_folders :: "request \<Rightarrow> folders_body http_result"
  http_items :: "nat \<Rightarrow> request \<Rightarrow> items_body http_result"
  get_channel :: "int \<Rightarrow> bool"
  fetch_message :: "int \<Rightarrow> lookup"
  message_edit :: "embed \<Rightarrow> edit_result"
  send_message :: "int \<Rightarrow> int"
  now_display :: string
  now_iso :: string

subsection \<open>\<open>fetch_jellyfin_libraries\<close>\<close>

text \<open>The four places where the function returns \<open>None\<close>, by their log line.\<close>

datatype fetch_error =
    NotConfigured      \<comment> \<open>URL or API key not configured\<close>
  | GeneralException   \<comment> \<open>General exception fetching libraries\<close>
  | NoStatistics       \<comment> \<open>No statistics found\<close>
  | AccessError int    \<comment> \<open>Error accessing libraries: status\<close>

text \<open>The test of line 195 and the test of line 207, on the lower-cased text.\<close>

definition is_playlist :: "string \<Rightarrow> bool" where
  "is_playlist library_name = contains ''playlist'' (lower library_name)"

definition is_tv :: "string \<Rightarrow> bool" where
  "is_tv collection_type =
     (contains ''tvshows'' collection_type \<or> contains ''tv'' collection_type)"

text \<open>\<open>library.get('CollectionType', '').lower()\<close>; \<open>None\<close> is the raised exception.\<close>

definition collection_type_of :: "library \<Rightarrow> string option" where
  "collection_type_of l =
     (case lib_collection_type l of
        Absent \<Rightarrow> Some (lower [])
      | JStr s \<Rightarrow> Some (lower s)
      | JOther \<Rightarrow> None)"

definition items_url :: "string \<Rightarrow> string \<Rightarrow> string \<Rightarrow> string" where
  "items_url base library_id collection_type =
     (if is_tv collection_type
      then base @ ''/Items?ParentId='' @ library_id
             @ ''&IncludeItemTypes=Series&Recursive=true&Limit=0''
      else base @ ''/Items?ParentId='' @ library_id @ ''&Recursive=true&Limit=0'')"

text \<open>
  The body of the inner \<open>try\<close>, given the answer to the item request: the count stored
  for the library. Every failure stores \<open>0\<close>.
\<close>

fun count_items :: "items_body http_result \<Rightarrow> int" where
  "count_items Raises = 0"
| "count_items (Response status ItemsUnparsable) = 0"
| "count_items (Response status (ItemsData c)) =
     (if status = 200 then (case c of None \<Rightarrow> 0 | Some n \<Rightarrow> n) else 0)"

text \<open>
  The loop over \<open>libraries\<close>. The state is the dictionary and the item requests sent so
  far; the first component of the result is \<open>None\<close> when an exception left the loop.
\<close>

fun collect :: "world \<Rightarrow> string \<Rightarrow> string \<Rightarrow> library list \<Rightarrow> stats \<Rightarrow> request list
                  \<Rightarrow> stats option \<times> request list" where
  "collect w base api_key [] library_stats sent = (Some library_stats, sent)"
| "collect w base api_key (l # ls) library_stats sent =
     (case lib_name l of
        JStr library_name \<Rightarrow>
          if is_playlist library_name then collect w base api_key ls library_stats sent
          else (case collection_type_of l of
                  None \<Rightarrow> (None, sent)
                | Some collection_type \<Rightarrow>
                    let rq = (items_url base (lib_id l) collection_type, api_key);
                        total_records = count_items (http_items w (length sent) rq)
                    in collect w base api_key ls
                         (dict_set library_name total_records library_stats) (sent @ [rq]))
      | _ \<Rightarrow> (None, sent))"

definition media_folders_request :: "string \<Rightarrow> string \<Rightarrow> request" where
  "media_folders_request base api_key = (base @ ''/Library/MediaFolders'', api_key)"

definition fetch_jellyfin_libraries :: "config \<Rightarrow> world \<Rightarrow> (fetch_error + stats) \<times> request list" where
  "fetch_jellyfin_libraries cfg w =
     (if \<not> truthy_str (jellyfin_url cfg) \<or> \<not> truthy_str (jellyfin_api_key cfg)
      then (Inl NotConfigured, [])
      else
        let base = the (jellyfin_url cfg);
            api_key = the (jellyfin_api_key cfg);
            rq = media_folders_request base api_key
        in case http_folders w rq of
             Raises \<Rightarrow> (Inl GeneralException, [rq])
           | Response status body \<Rightarrow>
               if status = 200 then
                 (case body of
                    FoldersUnparsable \<Rightarrow> (Inl GeneralException, [rq])
                  | Folders libraries \<Rightarrow>
                      (case collect w base api_key libraries [] [] of
                         (None, sent) \<Rightarrow> (Inl GeneralException, rq # sent)
                       | (Some library_stats, sent) \<Rightarrow>
                           if library_stats \<noteq> [] then (Inr library_stats, rq # sent)
                           else (Inl NoStatistics, rq # sent)))
               else (Inl (AccessError status), [rq]))"

subsection \<open>\<open>update_stats\<close>\<close>

text \<open>The places where the function returns \<open>False\<close>, by their log line.\<close>

datatype update_error =
    ConfigIncomplete     \<comment> \<open>Configuration is not complete\<close>
  | NoLibraryStats       \<comment> \<open>Could not fetch library statistics\<close>
  | ChannelNotFound      \<comment> \<open>Channel not found\<close>
  | MessageNotFound      \<comment> \<open>Message not found\<close>
  | MessageUpdateError   \<comment> \<open>Error updating message\<close>

datatype outcome = Raised | Returned bool

text \<open>
  What a run did: how the call ended, the error it logged, the requests it sent, the
  message edits it applied, the keys of the configuration it wrote, and the
  configuration afterwards.
\<close>

record run =
  outcome :: outcome
  logged :: "update_error option"
  requests :: "request list"
  edits :: "embed list"
  config_writes :: "(string \<times> string) list"
  cfg_after :: config

definition build_embed :: "world \<Rightarrow> stats \<Rightarrow> embed" where
  "build_embed w library_stats =
     \<lparr> embed_title = [CHR 0xF0, CHR 0x9F, CHR 0x93, CHR 0x8A] @ '' Freia Library Statistics'',
       embed_description = ''Updated at: '' @ now_display w,
       embed_fields = map (\<lambda>(library_name, item_count). (library_name, str_int item_count))
                  library_stats \<rparr>"

definition failed :: "update_error \<Rightarrow> request list \<Rightarrow> config \<Rightarrow> run" where
  "failed e rqs cfg =
     \<lparr> outcome = Returned False, logged = Some e, requests = rqs, edits = [],
       config_writes = [], cfg_after = cfg \<rparr>"

definition update_stats :: "bool \<Rightarrow> config \<Rightarrow> world \<Rightarrow> run" where
  "update_stats force_update cfg w =
     (if store_raises w then
        \<lparr> outcome = Raised, logged = None, requests = [], edits = [],
          config_writes = [], cfg_after = cfg \<rparr>
      else if \<not> (truthy_str (jellyfin_url cfg) \<and> truthy_int (update_channel_id cfg)
                 \<and> truthy_int (update_message_id cfg))
      then failed ConfigIncomplete [] cfg
      else
        let channel_id = the (update_channel_id cfg);
            message_id = the (update_message_id cfg)
        in case fetch_jellyfin_libraries cfg w of
             (Inl e, rqs) \<Rightarrow> failed NoLibraryStats rqs cfg
           | (Inr library_stats, rqs) \<Rightarrow>
               if library_stats = [] then failed NoLibraryStats rqs cfg
               else if \<not> get_channel w channel_id then failed ChannelNotFound rqs cfg
               else
                 let embed = build_embed w library_stats
                 in case fetch_message w message_id of
                      NotFound \<Rightarrow> failed MessageNotFound rqs cfg
                    | LookupFailed \<Rightarrow> failed MessageUpdateError rqs cfg
                    | Found \<Rightarrow>
                        (case message_edit w embed of
                           EditNotFound \<Rightarrow> failed MessageNotFound rqs cfg
                         | EditFailed \<Rightarrow> failed MessageUpdateError rqs cfg
                         | Edited \<Rightarrow>
                             \<lparr> outcome = Returned True, logged = None, requests = rqs,
                               edits = [embed],
                               config_writes = [(''last_update'', now_iso w)],
                               cfg_after = cfg\<lparr>last_update := Some (now_iso w)\<rparr> \<rparr>))"

subsection \<open>\<open>setup_jellyfin_stats\<close>\<close>

text \<open>
  The command stores the URL without its last character when that is a slash, the key,
  the channel and the id of the message it sends, then runs a forced update. (The
  connection test in between only chooses the reply text.)
\<close>

definition setup_jellyfin_stats :: "config \<Rightarrow> world \<Rightarrow> string \<Rightarrow> string \<Rightarrow> int \<Rightarrow> config" where
  "setup_jellyfin_stats cfg w jellyfin_url0 api_key channel =
     (let url = (if endswith_slash jellyfin_url0 then butlast jellyfin_url0 else jellyfin_url0);
          cfg1 = cfg\<lparr> jellyfin_url := Some url, jellyfin_api_key := Some api_key,
                      update_channel_id := Some channel,
                      update_message_id := Some (send_message w channel) \<rparr>
      in cfg_after (update_stats True cfg1 w))"

subsection \<open>\<open>background_update\<close>\<close>

text \<open>
  The loop runs one cycle for each world of the list (the bot is closed when the list
  ends) and the result is the list of the sleeps it made, in seconds: 604800 after
  \<open>update_stats\<close> returned, 3600 in the handler of the loop.
\<close>

fun background_update :: "config \<Rightarrow> world list \<Rightarrow> nat list" where
  "background_update cfg [] = []"
| "background_update cfg (w # ws) =
     (let r = update_stats False cfg w
      in (case outcome r of Returned b \<Rightarrow> 604800 | Raised \<Rightarrow> 3600)
         # background_update (cfg_after r) ws)"

subsection \<open>Vocabulary of the properties\<close>

text \<open>
  \<open>listing cfg w libraries\<close>: URL and key are configured and the media-folders request is
  answered with status 200 and a body whose \<open>Items\<close> is \<open>libraries\<close>.
\<close>

definition listing :: "config \<Rightarrow> world \<Rightarrow> library list \<Rightarrow> bool" where
  "listing cfg w libraries =
     (truthy_str (jellyfin_url cfg) \<and> truthy_str (jellyfin_api_key cfg) \<and>
      http_folders w (media_folders_request (the (jellyfin_url cfg)) (the (jellyfin_api_key cfg)))
        = Response 200 (Folders libraries))"

text \<open>
  A name contains the word in any letter case: some stretch of the name is the word when
  lower-cased. This is the wording of the exclusion rule, not the test of the code.
\<close>

definition mentions :: "string \<Rightarrow> string \<Rightarrow> bool" where
  "mentions word library_name =
     (\<exists>pre mid post. library_name = pre @ mid @ post \<and> lower mid = word)"

text \<open>
  An entry is excluded when its name is a string that the playlist test accepts; it
  survives when its name is a string that the test rejects. An entry is well formed when
  the loop body does not raise on it: its name is a string and, if it survives, its
  collection type is absent or a string.
\<close>

definition excluded :: "library \<Rightarrow> bool" where
  "excluded l = (case lib_name l of JStr n \<Rightarrow> is_playlist n | _ \<Rightarrow> False)"

definition survives :: "library \<Rightarrow> bool" where
  "survives l = (case lib_name l of JStr n \<Rightarrow> \<not> is_playlist n | _ \<Rightarrow> False)"

definition well_formed :: "library \<Rightarrow> bool" where
  "well_formed l = (excluded l \<or> (survives l \<and> lib_collection_type l \<noteq> JOther))"

definition retained :: "library list \<Rightarrow> library list" where
  "retained libraries = filter survives libraries"

definition name_of :: "library \<Rightarrow> string" where
  "name_of l = (case lib_name l of JStr n \<Rightarrow> n | _ \<Rightarrow> [])"

definition collection_type_text :: "library \<Rightarrow> string" where
  "collection_type_text l = (case lib_collection_type l of JStr s \<Rightarrow> lower s | _ \<Rightarrow> [])"

text \<open>The item request of a library, and the count stored for it as the \<open>n\<close>-th request.\<close>

definition item_request :: "string \<Rightarrow> string \<Rightarrow> library \<Rightarrow> request" where
  "item_request base api_key l = (items_url base (lib_id l) (collection_type_text l), api_key)"

definition counted :: "world \<Rightarrow> string \<Rightarrow> string \<Rightarrow> nat \<Rightarrow> library \<Rightarrow> string \<times> int" where
  "counted w base api_key n l =
     (name_of l, count_items (http_items w n (item_request base api_key l)))"

text \<open>
  The assignments of the loop, one after the other, and the pairs the loop assigns for a
  list of surviving libraries when \<open>k\<close> item requests were sent before.
\<close>

definition store_all :: "(string \<times> int) list \<Rightarrow> stats \<Rightarrow> stats" where
  "store_all kvs st = fold (\<lambda>(n, c). dict_set n c) kvs st"

definition counted_from :: "world \<Rightarrow> string \<Rightarrow> string \<Rightarrow> nat \<Rightarrow> library list
                              \<Rightarrow> (string \<times> int) list" where
  "counted_from w base api_key k ls =
     map (\<lambda>(j, l). counted w base api_key j l) (enumerate k ls)"

subsection \<open>A concrete server\<close>

text \<open>
  The example of the specification: three libraries, of which the playlist collection is
  dropped, with 120 movies and 15 series; everything is configured, the channel and the
  tracked message exist, and the edit succeeds.
\<close>

definition example_config :: config where
  "example_config =
     \<lparr> jellyfin_url = Some ''http://jf'', jellyfin_api_key = Some ''key'',
       update_channel_id = Some 10, update_message_id = Some 20, last_update = None \<rparr>"

definition example_libraries :: "library list" where
  "example_libraries =
     [\<lparr> lib_id = ''1'', lib_name = JStr ''Movies'', lib_collection_type = JStr ''movies'' \<rparr>,
      \<lparr> lib_id = ''2'', lib_name = JStr ''Shows'', lib_collection_type = JStr ''tvshows'' \<rparr>,
      \<lparr> lib_id = ''3'', lib_name = JStr ''Playlists'',
        lib_collection_type = JStr ''playlists'' \<rparr>]"

definition example_world :: world where
  "example_world =
     \<lparr> store_raises = False,
       http_folders = (\<lambda>rq. Response 200 (Folders example_libraries)),
       http_items = (\<lambda>n rq. Response 200 (ItemsData (Some (if n = 0 then 120 else 15)))),
       get_channel = (\<lambda>channel_id. True),
       fetch_message = (\<lambda>message_id. Found),
       message_edit = (\<lambda>e. Edited),
       send_message = (\<lambda>channel_id. 20),
       now_display = ''03.11.2026 21:00'',
       now_iso = ''2026-11-03T21:00:00'' \<rparr>"

text \<open>
  Variations: no URL configured; the server answers the listing with 503; a proxy passes
  the listing on with status 203; the tracked message is gone; the configuration store
  raises.
\<close>

definition unconfigured :: config where
  "unconfigured = example_config\<lparr> jellyfin_url := None \<rparr>"

definition server_error_world :: world where
  "server_error_world =
     example_world\<lparr> http_folders := (\<lambda>rq. Response 503 FoldersUnparsable) \<rparr>"

definition proxied_world :: world where
  "proxied_world =
     example_world\<lparr> http_folders := (\<lambda>rq. Response 203 (Folders example_libraries)) \<rparr>"

definition deleted_message_world :: world where
  "deleted_message_world = example_world\<lparr> fetch_message := (\<lambda>message_id. NotFound) \<rparr>"

definition store_fault_world :: world where
  "store_fault_world = example_world\<lparr> store_raises := True \<rparr>"

text \<open>
  Two libraries of one name and a third one; the first count request is answered with
  500, the second with 200 and 7 records, the third with 203 and 5 records. And a server
  whose count requests all fail, and one that has a playlist collection only.
\<close>

definition namesake_libraries :: "library list" where
  "namesake_libraries =
     [\<lparr> lib_id = ''1'', lib_name = JStr ''Films'', lib_collection_type = JStr ''movies'' \<rparr>,
      \<lparr> lib_id = ''2'', lib_name = JStr ''Films'', lib_collection_type = JStr ''movies'' \<rparr>,
      \<lparr> lib_id = ''3'', lib_name = JStr ''Music'', lib_collection_type = JStr ''music'' \<rparr>]"

definition namesake_world :: world where
  "namesake_world =
     example_world\<lparr>
       http_folders := (\<lambda>rq. Response 200 (Folders namesake_libraries)),
       http_items := (\<lambda>n rq. if n = 0 then Response 500 ItemsUnparsable
                              else if n = 1 then Response 200 (ItemsData (Some 7))
                              else Response 203 (ItemsData (Some 5))) \<rparr>"

definition one_failure_world :: world where
  "one_failure_world =
     example_world\<lparr> http_items := (\<lambda>n rq. if n = 0 then Response 500 ItemsUnparsable
                                            else Response 200 (ItemsData (Some 15))) \<rparr>"

definition failing_counts_world :: world where
  "failing_counts_world =
     example_world\<lparr> http_items := (\<lambda>n rq. Response 500 ItemsUnparsable) \<rparr>"

definition playlists_only_world :: world where
  "playlists_only_world =
     example_world\<lparr> http_folders := (\<lambda>rq. Response 200 (Folders [example_libraries ! 2])) \<rparr>"

section \<open>Properties\<close>

subsection \<open>Strings and the dictionary\<close>

lemma startswith_iff: "startswith p s \<longleftrightarrow> (\<exists>post. s = p @ post)"
  by (induction p s rule: startswith.induct) auto

lemma contains_iff: "contains sub s \<longleftrightarrow> (\<exists>pre post. s = pre @ sub @ post)"
proof (induction s)
  case Nil
  then show ?case by auto
next
  case (Cons c cs)
  show ?case
  proof
    assume "contains sub (c # cs)"
    then consider "startswith sub (c # cs)" | "contains sub cs" by auto
    then show "\<exists>pre post. c # cs = pre @ sub @ post"
    proof cases
      case 1
      then obtain post where "c # cs = sub @ post" by (auto simp: startswith_iff)
      then have "c # cs = [] @ sub @ post" by simp
      then show ?thesis by blast
    next
      case 2
      with Cons obtain pre post where "cs = pre @ sub @ post" by auto
      then have "c # cs = (c # pre) @ sub @ post" by simp
      then show ?thesis by blast
    qed
  next
    assume "\<exists>pre post. c # cs = pre @ sub @ post"
    then obtain pre post where e: "c # cs = pre @ sub @ post" by auto
    show "contains sub (c # cs)"
    proof (cases pre)
      case Nil
      with e have "startswith sub (c # cs)" by (auto simp: startswith_iff)
      then show ?thesis by simp
    next
      case (Cons a pre')
      with e have "cs = pre' @ sub @ post" by simp
      with Cons.IH have "contains sub cs" by blast
      then show ?thesis by simp
    qed
  qed
qed

lemma map_of_dict_set: "map_of (dict_set k v st) = (map_of st)(k \<mapsto> v)"
  by (induction st) auto

lemma fst_set_dict_set: "fst ` set (dict_set k v st) = insert k (fst ` set st)"
  by (simp add: map_of_dict_set flip: dom_map_of_conv_image_fst)

lemma dict_set_not_empty: "dict_set k v st \<noteq> []"
  by (cases st) (auto split: if_splits)

lemma dict_set_fresh: "k \<notin> fst ` set st \<Longrightarrow> dict_set k v st = st @ [(k, v)]"
  by (induction st) (auto split: if_splits)

subsection \<open>The exclusion rule and the loop\<close>

lemma mentions_iff: "mentions word n \<longleftrightarrow> contains word (lower n)"
proof
  assume "mentions word n"
  then obtain pre mid post where "n = pre @ mid @ post" "lower mid = word"
    by (auto simp: mentions_def)
  then have "lower n = lower pre @ word @ lower post" by (simp add: lower_def)
  then show "contains word (lower n)" unfolding contains_iff by blast
next
  assume "contains word (lower n)"
  then obtain a b where ab: "map lower_char n = a @ word @ b"
    by (auto simp: contains_iff lower_def)
  then obtain pre r where r: "n = pre @ r" "word @ b = map lower_char r"
    using map_eq_append_conv [of lower_char n a "word @ b"] by blast
  then obtain mid post where "r = mid @ post" "word = map lower_char mid"
    using append_eq_map_conv [of word b lower_char r] by blast
  with r show "mentions word n" by (auto simp: mentions_def lower_def)
qed

lemma store_all_simps [simp]:
  "store_all [] st = st"
  "store_all ((n, c) # kvs) st = store_all kvs (dict_set n c st)"
  "store_all (xs @ ys) st = store_all ys (store_all xs st)"
  by (simp_all add: store_all_def)

lemma store_all_empty: "store_all kvs st = [] \<longleftrightarrow> kvs = [] \<and> st = []"
proof (induction kvs arbitrary: st)
  case Nil
  show ?case by simp
next
  case (Cons kv kvs)
  obtain n c where kv: "kv = (n, c)" by (cases kv)
  show ?case by (simp add: kv Cons.IH dict_set_not_empty)
qed

lemma keys_store_all: "fst ` set (store_all kvs st) = fst ` set st \<union> fst ` set kvs"
proof (induction kvs arbitrary: st)
  case Nil
  show ?case by simp
next
  case (Cons kv kvs)
  obtain n c where kv: "kv = (n, c)" by (cases kv)
  show ?case by (auto simp: kv Cons.IH fst_set_dict_set)
qed



lemma counted_from_simps [simp]:
  "counted_from w base key k [] = []"
  "counted_from w base key k (l # ls) = counted w base key k l # counted_from w base key (Suc k) ls"
  by (simp_all add: counted_from_def)


lemma fst_counted_from: "map fst (counted_from w base key k ls) = map name_of ls"
  by (induction ls arbitrary: k) (simp_all add: counted_def)

lemma retained_simps [simp]:
  "retained [] = []"
  "retained (l # ls) = (if survives l then l # retained ls else retained ls)"
  "retained (xs @ ys) = retained xs @ retained ys"
  by (simp_all add: retained_def)

lemma collect_well_formed:
  "\<forall>l\<in>set ls. well_formed l \<Longrightarrow>
   collect w base key ls st sent =
     (Some (store_all (counted_from w base key (length sent) (retained ls)) st),
      sent @ map (item_request base key) (retained ls))"
proof (induction ls arbitrary: st sent)
  case Nil
  show ?case by simp
next
  case (Cons l ls)
  then have wf: "well_formed l" and rest: "\<forall>l\<in>set ls. well_formed l" by simp_all
  note IH = Cons.IH [OF rest]
  from wf obtain n where n: "lib_name l = JStr n"
    by (auto simp: well_formed_def excluded_def survives_def split: jfield.splits)
  show ?case
  proof (cases "is_playlist n")
    case True
    then have "\<not> survives l" using n by (simp add: survives_def)
    then show ?thesis using n True IH by simp
  next
    case False
    then have s: "survives l" using n by (simp add: survives_def)
    with wf n False have ct: "lib_collection_type l \<noteq> JOther"
      by (simp add: well_formed_def excluded_def)
    then have c: "collection_type_of l = Some (collection_type_text l)"
      by (cases "lib_collection_type l")
         (simp_all add: collection_type_of_def collection_type_text_def lower_def)
    show ?thesis using n False s c
      by (simp add: IH Let_def item_request_def counted_def name_of_def)
  qed
qed

lemma collect_Some_well_formed:
  "collect w base key ls st sent = (Some st', sent') \<Longrightarrow> \<forall>l\<in>set ls. well_formed l"
proof (induction ls arbitrary: st sent)
  case Nil
  show ?case by simp
next
  case (Cons l ls)
  show ?case
  proof (cases "lib_name l")
    case (JStr n)
    show ?thesis
    proof (cases "is_playlist n")
      case True
      with JStr Cons.prems have "collect w base key ls st sent = (Some st', sent')" by simp
      from Cons.IH [OF this] True JStr show ?thesis
        by (simp add: well_formed_def excluded_def)
    next
      case False
      with JStr Cons.prems obtain ct where ct: "collection_type_of l = Some ct"
        by (cases "collection_type_of l") auto
      with JStr False Cons.prems
      have "collect w base key ls
              (dict_set n (count_items (http_items w (length sent)
                 (items_url base (lib_id l) ct, key))) st)
              (sent @ [(items_url base (lib_id l) ct, key)]) = (Some st', sent')"
        by (simp add: Let_def)
      from Cons.IH [OF this] have "\<forall>l\<in>set ls. well_formed l" .
      moreover from ct have "lib_collection_type l \<noteq> JOther"
        by (auto simp: collection_type_of_def)
      ultimately show ?thesis using JStr False
        by (simp add: well_formed_def survives_def)
    qed
  next
    case Absent
    with Cons.prems show ?thesis by simp
  next
    case JOther
    with Cons.prems show ?thesis by simp
  qed
qed

lemma collect_requests:
  "\<exists>k. snd (collect w base key ls st sent)
         = sent @ take k (map (item_request base key) (retained ls))"
proof (induction ls arbitrary: st sent)
  case Nil
  show ?case by simp
next
  case (Cons l ls)
  have stop: ?case if "snd (collect w base key (l # ls) st sent) = sent"
  proof -
    from that have "snd (collect w base key (l # ls) st sent)
                      = sent @ take 0 (map (item_request base key) (retained (l # ls)))"
      by simp
    then show ?thesis by (rule exI)
  qed
  show ?case
  proof (cases "lib_name l")
    case (JStr n)
    show ?thesis
    proof (cases "is_playlist n")
      case True
      then have "\<not> survives l" using JStr by (simp add: survives_def)
      then show ?thesis using JStr True Cons.IH [of st sent] by simp
    next
      case False
      then have s: "survives l" using JStr by (simp add: survives_def)
      show ?thesis
      proof (cases "collection_type_of l")
        case None
        then show ?thesis using JStr False by (intro stop) simp
      next
        case (Some ct)
        then have ct: "ct = collection_type_text l"
          by (auto simp: collection_type_of_def collection_type_text_def lower_def
              split: jfield.splits)
        let ?rq = "item_request base key l"
        let ?st = "dict_set n (count_items (http_items w (length sent) ?rq)) st"
        from Cons.IH [of ?st "sent @ [?rq]"]
        obtain k where "snd (collect w base key ls ?st (sent @ [?rq]))
             = (sent @ [?rq]) @ take k (map (item_request base key) (retained ls))"
          by blast
        then have "snd (collect w base key (l # ls) st sent)
             = sent @ take (Suc k) (map (item_request base key) (retained (l # ls)))"
          using JStr False Some ct s by (simp add: Let_def item_request_def)
        then show ?thesis by (rule exI)
      qed
    qed
  next
    case Absent
    then show ?thesis by (intro stop) simp
  next
    case JOther
    then show ?thesis by (intro stop) simp
  qed
qed

lemma listing_fetch:
  "listing cfg w libraries \<Longrightarrow>
   fetch_jellyfin_libraries cfg w =
     (case collect w (the (jellyfin_url cfg)) (the (jellyfin_api_key cfg)) libraries [] [] of
        (None, sent) \<Rightarrow>
          (Inl GeneralException,
           media_folders_request (the (jellyfin_url cfg)) (the (jellyfin_api_key cfg)) # sent)
      | (Some library_stats, sent) \<Rightarrow>
          if library_stats \<noteq> []
          then (Inr library_stats,
                media_folders_request (the (jellyfin_url cfg)) (the (jellyfin_api_key cfg)) # sent)
          else (Inl NoStatistics,
                media_folders_request (the (jellyfin_url cfg)) (the (jellyfin_api_key cfg)) # sent))"
  by (simp add: listing_def fetch_jellyfin_libraries_def Let_def)

lemma listing_fetch_well_formed:
  assumes "listing cfg w libraries" and "\<forall>l\<in>set libraries. well_formed l"
  shows "fetch_jellyfin_libraries cfg w =
     (if retained libraries \<noteq> []
      then Inr (store_all (counted_from w (the (jellyfin_url cfg)) (the (jellyfin_api_key cfg)) 0
                  (retained libraries)) [])
      else Inl NoStatistics,
      media_folders_request (the (jellyfin_url cfg)) (the (jellyfin_api_key cfg))
        # map (item_request (the (jellyfin_url cfg)) (the (jellyfin_api_key cfg)))
            (retained libraries))"
proof -
  have "counted_from w b k 0 ls = [] \<longleftrightarrow> ls = []" for b k ls
    by (cases ls) simp_all
  then show ?thesis
    by (simp add: listing_fetch [OF assms(1)] collect_well_formed [OF assms(2)] store_all_empty)
qed

lemma listing_report_well_formed:
  assumes "listing cfg w libraries"
    and "fst (fetch_jellyfin_libraries cfg w) = Inr report
         \<or> fst (fetch_jellyfin_libraries cfg w) = Inl NoStatistics"
  shows "\<forall>l\<in>set libraries. well_formed l"
proof -
  obtain r sent where c: "collect w (the (jellyfin_url cfg)) (the (jellyfin_api_key cfg))
                            libraries [] [] = (r, sent)"
    by (cases "collect w (the (jellyfin_url cfg)) (the (jellyfin_api_key cfg)) libraries [] []")
  with assms obtain st where "r = Some st"
    by (cases r) (auto simp: listing_fetch split: if_splits)
  with c show ?thesis by (auto dest: collect_Some_well_formed)
qed

lemma edits_update_stats:
  "e \<in> set (edits (update_stats f cfg w)) \<Longrightarrow>
   \<exists>report rqs. fetch_jellyfin_libraries cfg w = (Inr report, rqs) \<and> e = build_embed w report"
  by (auto simp: update_stats_def failed_def Let_def
      split: if_splits prod.splits sum.splits lookup.splits edit_result.splits)

lemma keys_build_embed: "map fst (embed_fields (build_embed w report)) = map fst report"
  by (simp add: build_embed_def case_prod_unfold)

lemma names_retained:
  "name_of ` set (retained ls) = {n. \<exists>l\<in>set ls. lib_name l = JStr n \<and> \<not> is_playlist n}"
proof (intro set_eqI iffI)
  fix n
  assume "n \<in> name_of ` set (retained ls)"
  then obtain l where l: "l \<in> set ls" "survives l" "n = name_of l"
    by (auto simp: retained_def)
  then have "lib_name l = JStr n \<and> \<not> is_playlist n"
    by (cases "lib_name l") (simp_all add: survives_def name_of_def)
  with l(1) show "n \<in> {n. \<exists>l\<in>set ls. lib_name l = JStr n \<and> \<not> is_playlist n}" by blast
next
  fix n
  assume "n \<in> {n. \<exists>l\<in>set ls. lib_name l = JStr n \<and> \<not> is_playlist n}"
  then obtain l where l: "l \<in> set ls" "lib_name l = JStr n" "\<not> is_playlist n" by blast
  then have "survives l" "name_of l = n" by (simp_all add: survives_def name_of_def)
  with l(1) have "l \<in> set (retained ls)" by (simp add: retained_def)
  with \<open>name_of l = n\<close> show "n \<in> name_of ` set (retained ls)" by blast
qed

lemma keys_counted_from: "fst ` set (counted_from w base key k ls) = name_of ` set ls"
proof -
  have "fst ` set (counted_from w base key k ls) = set (map fst (counted_from w base key k ls))"
    by (simp only: set_map)
  also have "\<dots> = set (map name_of ls)" by (simp only: fst_counted_from)
  also have "\<dots> = name_of ` set ls" by (simp only: set_map)
  finally show ?thesis .
qed

lemma keys_report:
  assumes "listing cfg w libraries" and "fst (fetch_jellyfin_libraries cfg w) = Inr report"
  shows "fst ` set report
           = {n. \<exists>l\<in>set libraries. lib_name l = JStr n \<and> \<not> mentions ''playlist'' n}"
proof -
  from assms have wf: "\<forall>l\<in>set libraries. well_formed l"
    by (blast intro: listing_report_well_formed [rule_format])
  from assms(2) have "report = store_all (counted_from w (the (jellyfin_url cfg))
                        (the (jellyfin_api_key cfg)) 0 (retained libraries)) []"
    by (simp add: listing_fetch_well_formed [OF assms(1) wf] split: if_splits)
  then have "fst ` set report = name_of ` set (retained libraries)"
    by (simp add: keys_store_all keys_counted_from)
  then show ?thesis by (simp add: names_retained mentions_iff is_playlist_def)
qed

lemma keys_embed: "fst ` set (embed_fields (build_embed w report)) = fst ` set report"
proof -
  have "fst ` set (embed_fields (build_embed w report))
          = set (map fst (embed_fields (build_embed w report)))"
    by (simp only: set_map)
  also have "\<dots> = set (map fst report)" by (simp only: keys_build_embed)
  also have "\<dots> = fst ` set report" by (simp only: set_map)
  finally show ?thesis .
qed

lemma listing_items_irrelevant:
  "listing cfg (w\<lparr>http_items := answers\<rparr>) libraries = listing cfg w libraries"
  by (simp add: listing_def)

subsection \<open>Evaluation at the concrete server\<close>

lemmas eval_defs = update_stats_def fetch_jellyfin_libraries_def failed_def build_embed_def
  truthy_str_def truthy_int_def media_folders_request_def example_config_def example_world_def
  example_libraries_def is_playlist_def is_tv_def lower_def lower_char_def
  collection_type_of_def items_url_def str_int_def Let_def
  unconfigured_def server_error_world_def proxied_world_def deleted_message_world_def
  store_fault_world_def namesake_libraries_def namesake_world_def failing_counts_world_def
  playlists_only_world_def one_failure_world_def

lemma example_fetch:
  "fetch_jellyfin_libraries example_config example_world =
     (Inr [(''Movies'', 120), (''Shows'', 15)],
      [(''http://jf/Library/MediaFolders'', ''key''),
       (''http://jf/Items?ParentId=1&Recursive=true&Limit=0'', ''key''),
       (''http://jf/Items?ParentId=2&IncludeItemTypes=Series&Recursive=true&Limit=0'',
        ''key'')])"
  by (simp add: eval_defs)

subsection \<open>The run as a whole\<close>

lemma fetch_report_not_empty:
  "fetch_jellyfin_libraries cfg w = (Inr library_stats, rqs) \<Longrightarrow> library_stats \<noteq> []"
  by (auto simp: fetch_jellyfin_libraries_def Let_def
      split: if_splits http_result.splits folders_body.splits prod.splits option.splits)

lemma length_background_update: "length (background_update cfg ws) = length ws"
  by (induction ws arbitrary: cfg) (simp_all add: Let_def)

lemma update_stats_keeps_url:
  "jellyfin_url (cfg_after (update_stats force_update cfg w)) = jellyfin_url cfg"
  by (simp add: update_stats_def failed_def Let_def
      split: prod.splits sum.splits lookup.splits edit_result.splits)

text \<open>
  C9. \<open>update_stats\<close> does not look at \<open>force_update\<close>: a run with \<open>True\<close> and a run with
  \<open>False\<close>, from the same configuration in the same world, end the same way, log the
  same error, send the same requests, apply the same message edit, write the same
  configuration keys and leave the same configuration.
\<close>

theorem update_stats_ignores_force_update:
  "update_stats True cfg w = update_stats False cfg w"
  by (simp add: update_stats_def)

text \<open>
  C8. The setup command removes one trailing slash only. For the input
  \<open>http://host//\<close> the stored URL is \<open>http://host/\<close>, which ends with a slash, against
  the comment of the source (\<open>Make sure URL ends without slash\<close>).
\<close>

theorem setup_keeps_second_trailing_slash:
  "jellyfin_url (setup_jellyfin_stats cfg w ''http://host//'' api_key channel)
     = Some ''http://host/''
   \<and> endswith_slash ''http://host/''"
  by (simp add: setup_jellyfin_stats_def update_stats_keeps_url endswith_slash_def Let_def)

text \<open>
  C10. The last-update time is written exactly when the run returns \<open>True\<close>: a run that
  returns \<open>True\<close> writes the key \<open>last_update\<close> once, with the current time, and changes
  nothing else of the configuration; a run that ends in any other way writes nothing and
  leaves the configuration as it was. Every run that logs one of the failures
  (configuration incomplete, statistics not fetched, channel not found, message not
  found, message update error) returns \<open>False\<close>.
\<close>

theorem last_update_written_iff_success:
  "(outcome (update_stats f cfg w) = Returned True \<longrightarrow>
       config_writes (update_stats f cfg w) = [(''last_update'', now_iso w)] \<and>
       cfg_after (update_stats f cfg w) = cfg\<lparr>last_update := Some (now_iso w)\<rparr>) \<and>
   (outcome (update_stats f cfg w) \<noteq> Returned True \<longrightarrow>
       config_writes (update_stats f cfg w) = [] \<and> cfg_after (update_stats f cfg w) = cfg) \<and>
   (logged (update_stats f cfg w) \<noteq> None \<longrightarrow> outcome (update_stats f cfg w) = Returned False)"
  by (simp add: update_stats_def failed_def Let_def
      split: prod.splits sum.splits lookup.splits edit_result.splits)

theorem last_update_written_iff_success_witness:
  "outcome (update_stats False example_config example_world) = Returned True \<and>
   config_writes (update_stats False example_config example_world)
     = [(''last_update'', ''2026-11-03T21:00:00'')] \<and>
   last_update (cfg_after (update_stats False example_config example_world))
     = Some ''2026-11-03T21:00:00'' \<and>
   logged (update_stats False example_config deleted_message_world) = Some MessageNotFound \<and>
   outcome (update_stats False example_config deleted_message_world) = Returned False \<and>
   config_writes (update_stats False example_config deleted_message_world) = [] \<and>
   cfg_after (update_stats False example_config deleted_message_world) = example_config"
proof -
  have ok: "outcome (update_stats False example_config example_world) = Returned True"
    by (simp add: eval_defs)
  have t: "now_iso example_world = ''2026-11-03T21:00:00''"
    by (simp add: example_world_def)
  have gone: "logged (update_stats False example_config deleted_message_world)
                = Some MessageNotFound"
    by (simp add: eval_defs)
  from last_update_written_iff_success [of False example_config example_world]
       last_update_written_iff_success [of False example_config deleted_message_world]
       ok t gone
  show ?thesis by simp
qed

text \<open>
  C6. When the configuration is complete, the statistics were fetched, the channel
  exists and the tracked message id resolves to no message, the run logs that the
  message was not found and returns \<open>False\<close> to its caller; it edits nothing and raises
  nothing, so that the background loop sleeps and goes on with its next cycles.
\<close>

theorem deleted_message_is_reported_not_raised:
  assumes "\<not> store_raises w"
    and "truthy_str (jellyfin_url cfg)"
    and "update_channel_id cfg = Some channel_id" and "channel_id \<noteq> 0"
    and "update_message_id cfg = Some message_id" and "message_id \<noteq> 0"
    and "fetch_jellyfin_libraries cfg w = (Inr library_stats, rqs)"
    and "get_channel w channel_id"
    and "fetch_message w message_id = NotFound"
  shows "logged (update_stats force_update cfg w) = Some MessageNotFound \<and>
         outcome (update_stats force_update cfg w) = Returned False \<and>
         edits (update_stats force_update cfg w) = [] \<and>
         cfg_after (update_stats force_update cfg w) = cfg \<and>
         background_update cfg (w # ws) = 604800 # background_update cfg ws"
proof -
  from assms(7) have ne: "library_stats \<noteq> []" by (rule fetch_report_not_empty)
  have run: "update_stats f cfg w = failed MessageNotFound rqs cfg" for f
    using assms ne by (simp add: update_stats_def truthy_int_def Let_def)
  show ?thesis by (simp add: run failed_def Let_def)
qed

theorem deleted_message_is_reported_not_raised_witness:
  "logged (update_stats True example_config deleted_message_world) = Some MessageNotFound \<and>
   outcome (update_stats True example_config deleted_message_world) = Returned False \<and>
   edits (update_stats True example_config deleted_message_world) = [] \<and>
   background_update example_config [deleted_message_world, example_world] = [604800, 604800]"
proof -
  have f: "fetch_jellyfin_libraries example_config deleted_message_world =
             (Inr [(''Movies'', 120), (''Shows'', 15)],
              snd (fetch_jellyfin_libraries example_config deleted_message_world))"
    by (simp add: eval_defs)
  have rest: "background_update example_config [example_world] = [604800]"
    by (simp add: eval_defs)
  from deleted_message_is_reported_not_raised
         [of deleted_message_world example_config 10 20 _ _ True "[example_world]",
          OF _ _ _ _ _ _ f]
       rest
  show ?thesis
    by (simp add: example_config_def deleted_message_world_def example_world_def truthy_str_def)
qed

text \<open>
  C5, as stated, fails. A scheduled run without a configured URL, and a scheduled run
  whose listing request is answered with status 503, both end inside \<open>update_stats\<close>,
  which logs and returns \<open>False\<close>; the loop does not look at the returned value and
  sleeps 604800 seconds (7 days), not 3600.
\<close>

theorem failed_cycle_sleeps_a_week:
  "logged (update_stats False unconfigured example_world) = Some ConfigIncomplete \<and>
   background_update unconfigured [example_world] = [604800] \<and>
   fst (fetch_jellyfin_libraries example_config server_error_world) = Inl (AccessError 503) \<and>
   logged (update_stats False example_config server_error_world) = Some NoLibraryStats \<and>
   background_update example_config [server_error_world] = [604800]"
  by (simp add: eval_defs)

text \<open>
  C5, amended. The loop makes one sleep for every cycle, whatever the runs did, so no
  failure ends it. It sleeps 7 days whenever \<open>update_stats\<close> returns, with \<open>True\<close> or
  with \<open>False\<close>, and 1 hour only when an exception leaves \<open>update_stats\<close>. A run that
  fails for missing configuration or at the enumeration returns \<open>False\<close> and leaves the
  configuration as it was, and the loop sleeps 7 days after it.
\<close>

theorem scheduler_sleep_follows_outcome:
  "length (background_update cfg ws) = length ws \<and>
   (\<not> store_raises w \<longrightarrow>
      background_update cfg (w # ws)
        = 604800 # background_update (cfg_after (update_stats False cfg w)) ws) \<and>
   (store_raises w \<longrightarrow> background_update cfg (w # ws) = 3600 # background_update cfg ws) \<and>
   (\<not> store_raises w \<and>
      (\<not> truthy_str (jellyfin_url cfg) \<or> \<not> truthy_int (update_channel_id cfg) \<or>
       \<not> truthy_int (update_message_id cfg) \<or>
       (\<exists>e. fst (fetch_jellyfin_libraries cfg w) = Inl e)) \<longrightarrow>
      outcome (update_stats False cfg w) = Returned False \<and>
      cfg_after (update_stats False cfg w) = cfg \<and>
      background_update cfg (w # ws) = 604800 # background_update cfg ws)"
proof -
  have out: "outcome (update_stats False cfg w) \<noteq> Raised" if "\<not> store_raises w"
    using that
    by (simp add: update_stats_def failed_def Let_def
        split: prod.splits sum.splits lookup.splits edit_result.splits)
  have a: "\<not> store_raises w \<longrightarrow>
      background_update cfg (w # ws)
        = 604800 # background_update (cfg_after (update_stats False cfg w)) ws"
    using out by (cases "outcome (update_stats False cfg w)") (auto simp: Let_def)
  have b: "store_raises w \<longrightarrow> background_update cfg (w # ws) = 3600 # background_update cfg ws"
    by (simp add: update_stats_def Let_def)
  have c: "outcome (update_stats False cfg w) = Returned False \<and>
           cfg_after (update_stats False cfg w) = cfg"
    if "\<not> store_raises w"
       "\<not> truthy_str (jellyfin_url cfg) \<or> \<not> truthy_int (update_channel_id cfg) \<or>
        \<not> truthy_int (update_message_id cfg) \<or>
        (\<exists>e. fst (fetch_jellyfin_libraries cfg w) = Inl e)"
    using that
    by (auto simp: update_stats_def failed_def Let_def split: prod.splits sum.splits)
  show ?thesis using a b c by (auto simp: length_background_update)
qed

theorem scheduler_sleep_follows_outcome_witness:
  "background_update unconfigured [example_world, example_world] = [604800, 604800] \<and>
   background_update example_config [store_fault_world, server_error_world, example_world]
     = [3600, 604800, 604800]"
proof -
  have u: "\<not> truthy_str (jellyfin_url unconfigured)"
    by (simp add: unconfigured_def truthy_str_def)
  have s: "\<not> store_raises example_world" "store_raises store_fault_world"
       "\<not> store_raises server_error_world"
    by (simp_all add: example_world_def store_fault_world_def server_error_world_def)
  have e: "fst (fetch_jellyfin_libraries example_config server_error_world)
             = Inl (AccessError 503)"
    by (simp add: eval_defs)
  have one: "background_update cfg [example_world] = [604800]" for cfg
    by (simp add: update_stats_def failed_def example_world_def Let_def
        split: prod.splits sum.splits)
  from scheduler_sleep_follows_outcome [of unconfigured "[example_world]" example_world]
       scheduler_sleep_follows_outcome
         [of example_config "[server_error_world, example_world]" store_fault_world]
       scheduler_sleep_follows_outcome [of example_config "[example_world]" server_error_world]
       u s e one
  show ?thesis by simp
qed

text \<open>
  C7, as stated, fails. A listing answered with status 203, a status of the 2xx range,
  and a well-formed body is not processed: the function logs the access error and
  returns \<open>None\<close>, after the one request.
\<close>

theorem other_2xx_status_is_a_failure:
  "http_folders proxied_world (media_folders_request ''http://jf'' ''key'')
     = Response 203 (Folders example_libraries) \<and>
   fetch_jellyfin_libraries example_config proxied_world
     = (Inl (AccessError 203), [(''http://jf/Library/MediaFolders'', ''key'')]) \<and>
   outcome (update_stats False example_config proxied_world) = Returned False"
  by (simp add: eval_defs)

text \<open>
  C7, amended. With URL and key configured and the listing request answered, the
  enumeration fails with the access error exactly when the status is not 200. Then the
  listing request is the only request sent, no report is produced, the run does not
  succeed and edits nothing. A response with status 200 never fails with the access
  error.
\<close>

theorem enumeration_fails_unless_status_200:
  assumes "truthy_str (jellyfin_url cfg)" and "truthy_str (jellyfin_api_key cfg)"
    and "http_folders w (media_folders_request (the (jellyfin_url cfg))
           (the (jellyfin_api_key cfg))) = Response status body"
  shows "(fst (fetch_jellyfin_libraries cfg w) = Inl (AccessError status) \<longleftrightarrow> status \<noteq> 200) \<and>
         (status \<noteq> 200 \<longrightarrow>
            snd (fetch_jellyfin_libraries cfg w)
              = [media_folders_request (the (jellyfin_url cfg)) (the (jellyfin_api_key cfg))] \<and>
            outcome (update_stats force_update cfg w) \<noteq> Returned True \<and>
            edits (update_stats force_update cfg w) = []) \<and>
         (status = 200 \<longrightarrow> (\<forall>s. fst (fetch_jellyfin_libraries cfg w) \<noteq> Inl (AccessError s)))"
proof -
  have bad: "fetch_jellyfin_libraries cfg w
               = (Inl (AccessError status),
                  [media_folders_request (the (jellyfin_url cfg)) (the (jellyfin_api_key cfg))])"
    if "status \<noteq> 200"
    using assms that by (simp add: fetch_jellyfin_libraries_def Let_def)
  have good: "fst (fetch_jellyfin_libraries cfg w) \<noteq> Inl (AccessError s)" if "status = 200" for s
    using assms that
    by (simp add: fetch_jellyfin_libraries_def Let_def
        split: folders_body.splits prod.splits option.splits)
  have upd: "outcome (update_stats force_update cfg w) \<noteq> Returned True \<and>
             edits (update_stats force_update cfg w) = []" if "status \<noteq> 200"
    using bad [OF that] by (simp add: update_stats_def failed_def Let_def)
  show ?thesis using bad good upd by auto
qed

theorem enumeration_fails_unless_status_200_witness:
  "fst (fetch_jellyfin_libraries example_config server_error_world) = Inl (AccessError 503) \<and>
   snd (fetch_jellyfin_libraries example_config server_error_world)
     = [(''http://jf/Library/MediaFolders'', ''key'')] \<and>
   edits (update_stats False example_config server_error_world) = [] \<and>
   fst (fetch_jellyfin_libraries example_config example_world) \<noteq> Inl (AccessError 200)"
proof -
  have c: "truthy_str (jellyfin_url example_config)" "truthy_str (jellyfin_api_key example_config)"
    by (simp_all add: example_config_def truthy_str_def)
  have r1: "http_folders server_error_world (media_folders_request (the (jellyfin_url example_config))
           (the (jellyfin_api_key example_config))) = Response 503 FoldersUnparsable"
    by (simp add: server_error_world_def example_world_def)
  have r2: "http_folders example_world (media_folders_request (the (jellyfin_url example_config))
           (the (jellyfin_api_key example_config))) = Response 200 (Folders example_libraries)"
    by (simp add: example_world_def)
  from enumeration_fails_unless_status_200 [OF c r1, of False]
       enumeration_fails_unless_status_200 [OF c r2, of False]
  show ?thesis by (simp add: media_folders_request_def example_config_def)
qed

text \<open>
  C1. When the media-folders endpoint returns a listing, the names in the report that is
  produced are exactly the names of the listed libraries that do not contain
  \<open>playlist\<close> in any letter case: no library whose name contains it has an entry, and
  every other library has one. The same holds for the fields of the message that is
  published. A report is produced whenever no entry makes the loop raise and at least
  one library is kept.
\<close>

theorem playlist_libraries_are_excluded:
  assumes "listing cfg w libraries"
  shows "(\<forall>report. fst (fetch_jellyfin_libraries cfg w) = Inr report \<longrightarrow>
            fst ` set report
              = {n. \<exists>l\<in>set libraries. lib_name l = JStr n \<and> \<not> mentions ''playlist'' n}) \<and>
         (\<forall>e\<in>set (edits (update_stats force_update cfg w)).
            fst ` set (embed_fields e)
              = {n. \<exists>l\<in>set libraries. lib_name l = JStr n \<and> \<not> mentions ''playlist'' n}) \<and>
         ((\<forall>l\<in>set libraries. well_formed l) \<and> (\<exists>l\<in>set libraries. survives l) \<longrightarrow>
            (\<exists>report. fst (fetch_jellyfin_libraries cfg w) = Inr report))"
proof (intro conjI allI impI ballI)
  fix report
  assume "fst (fetch_jellyfin_libraries cfg w) = Inr report"
  with assms show "fst ` set report
      = {n. \<exists>l\<in>set libraries. lib_name l = JStr n \<and> \<not> mentions ''playlist'' n}"
    by (rule keys_report)
next
  fix e
  assume "e \<in> set (edits (update_stats force_update cfg w))"
  then obtain report rqs where f: "fetch_jellyfin_libraries cfg w = (Inr report, rqs)"
    and e: "e = build_embed w report"
    by (blast dest: edits_update_stats)
  from f have "fst (fetch_jellyfin_libraries cfg w) = Inr report" by simp
  from keys_report [OF assms this] e
  show "fst ` set (embed_fields e)
      = {n. \<exists>l\<in>set libraries. lib_name l = JStr n \<and> \<not> mentions ''playlist'' n}"
    by (simp add: keys_embed)
next
  assume a: "(\<forall>l\<in>set libraries. well_formed l) \<and> (\<exists>l\<in>set libraries. survives l)"
  then have "retained libraries \<noteq> []" by (auto simp: retained_def filter_empty_conv)
  with a show "\<exists>report. fst (fetch_jellyfin_libraries cfg w) = Inr report"
    by (simp add: listing_fetch_well_formed [OF assms])
qed

theorem playlist_libraries_are_excluded_witness:
  "listing example_config example_world example_libraries \<and>
   fst (fetch_jellyfin_libraries example_config example_world)
     = Inr [(''Movies'', 120), (''Shows'', 15)] \<and>
   mentions ''playlist'' ''Playlists'' \<and>
   {n. n = ''Movies'' \<or> n = ''Shows''}
     = fst ` set (embed_fields (hd (edits (update_stats False example_config example_world))))"
proof -
  have l: "listing example_config example_world example_libraries"
    by (simp add: listing_def eval_defs)
  have f: "fst (fetch_jellyfin_libraries example_config example_world)
             = Inr [(''Movies'', 120), (''Shows'', 15)]"
    by (simp add: example_fetch)
  have m: "mentions ''playlist'' ''Playlists''"
    by (simp add: mentions_iff lower_def lower_char_def)
  have n: "\<not> mentions ''playlist'' ''Movies''" "\<not> mentions ''playlist'' ''Shows''"
    by (simp_all add: mentions_iff lower_def lower_char_def)
  have e: "edits (update_stats False example_config example_world)
             = [build_embed example_world [(''Movies'', 120), (''Shows'', 15)]]"
    by (simp add: eval_defs)
  have s: "{n. \<exists>l\<in>set example_libraries. lib_name l = JStr n \<and> \<not> mentions ''playlist'' n}
             = {n. n = ''Movies'' \<or> n = ''Shows''}"
    using m n by (auto simp: example_libraries_def)
  from playlist_libraries_are_excluded [OF l, of False] e s
  have "fst ` set (embed_fields (hd (edits (update_stats False example_config example_world))))
          = {n. n = ''Movies'' \<or> n = ''Shows''}"
    by simp
  with l f m show ?thesis by simp
qed




text \<open>
  C3. After the listing request, the requests of a run are count requests of kept
  libraries, in the order of the listing, and one for every kept library when no entry
  makes the loop raise. The count request of a library asks for
  \<open>/Items?ParentId=\<close> and its id, then \<open>&IncludeItemTypes=Series\<close> if and only if the
  lower-cased collection type contains \<open>tvshows\<close> or \<open>tv\<close>, then
  \<open>&Recursive=true&Limit=0\<close> in both cases, with the API key as token.
\<close>

theorem series_filter_iff_tv:
  assumes "listing cfg w libraries"
    and "base = the (jellyfin_url cfg)" and "api_key = the (jellyfin_api_key cfg)"
  shows "(\<exists>k. snd (fetch_jellyfin_libraries cfg w)
             = media_folders_request base api_key
                 # take k (map (item_request base api_key) (retained libraries))) \<and>
         ((\<forall>l\<in>set libraries. well_formed l) \<longrightarrow>
            snd (fetch_jellyfin_libraries cfg w)
              = media_folders_request base api_key
                  # map (item_request base api_key) (retained libraries)) \<and>
         item_request base api_key l
           = (base @ ''/Items?ParentId='' @ lib_id l
                @ (if contains ''tvshows'' (collection_type_text l)
                      \<or> contains ''tv'' (collection_type_text l)
                   then ''&IncludeItemTypes=Series'' else [])
                @ ''&Recursive=true&Limit=0'',
              api_key)"
proof -
  obtain k where k: "snd (collect w base api_key libraries [] [])
                       = [] @ take k (map (item_request base api_key) (retained libraries))"
    using collect_requests [of w base api_key libraries "[]" "[]"] by blast
  have "snd (fetch_jellyfin_libraries cfg w)
          = media_folders_request base api_key # snd (collect w base api_key libraries [] [])"
    by (simp add: listing_fetch [OF assms(1)] assms(2,3) split: prod.splits option.splits)
  with k have "snd (fetch_jellyfin_libraries cfg w)
                 = media_folders_request base api_key
                     # take k (map (item_request base api_key) (retained libraries))"
    by simp
  then have a: "\<exists>k. snd (fetch_jellyfin_libraries cfg w)
             = media_folders_request base api_key
                 # take k (map (item_request base api_key) (retained libraries))"
    by (rule exI)
  have b: "snd (fetch_jellyfin_libraries cfg w)
              = media_folders_request base api_key
                  # map (item_request base api_key) (retained libraries)"
    if "\<forall>l\<in>set libraries. well_formed l"
    by (simp add: listing_fetch_well_formed [OF assms(1) that] assms(2,3))
  have c: "item_request base api_key l
           = (base @ ''/Items?ParentId='' @ lib_id l
                @ (if contains ''tvshows'' (collection_type_text l)
                      \<or> contains ''tv'' (collection_type_text l)
                   then ''&IncludeItemTypes=Series'' else [])
                @ ''&Recursive=true&Limit=0'',
              api_key)"
    by (simp add: item_request_def items_url_def is_tv_def)
  from a b c show ?thesis by blast
qed

theorem series_filter_iff_tv_witness:
  "snd (fetch_jellyfin_libraries example_config example_world)
     = [(''http://jf/Library/MediaFolders'', ''key''),
        (''http://jf/Items?ParentId=1&Recursive=true&Limit=0'', ''key''),
        (''http://jf/Items?ParentId=2&IncludeItemTypes=Series&Recursive=true&Limit=0'', ''key'')] \<and>
   collection_type_text (example_libraries ! 1) = ''tvshows'' \<and>
   contains ''tv'' ''tvshows'' \<and>
   item_request ''http://jf'' ''key'' (example_libraries ! 1)
     = (''http://jf/Items?ParentId=2&IncludeItemTypes=Series&Recursive=true&Limit=0'', ''key'')"
proof -
  have l: "listing example_config example_world example_libraries"
    by (simp add: listing_def eval_defs)
  have p: "is_playlist ''Playlists''" "\<not> is_playlist ''Movies''" "\<not> is_playlist ''Shows''"
    by (simp_all add: is_playlist_def lower_def lower_char_def)
  have wf: "\<forall>l\<in>set example_libraries. well_formed l"
    using p by (simp add: example_libraries_def well_formed_def excluded_def survives_def)
  have b: "''http://jf'' = the (jellyfin_url example_config)"
          "''key'' = the (jellyfin_api_key example_config)"
    by (simp_all add: example_config_def)
  have t: "collection_type_text (example_libraries ! 1) = ''tvshows''"
    by (simp add: example_libraries_def collection_type_text_def lower_def lower_char_def)
  from series_filter_iff_tv [OF l b, of "example_libraries ! 1"] wf t
  show ?thesis
    by (simp add: example_fetch) (simp add: example_libraries_def)
qed

text \<open>
  C4. When the listing is returned, the function ends with \<open>No statistics found\<close> if and
  only if every listed entry is excluded by the playlist rule, which includes the empty
  listing. The run then does not succeed and edits no message. When no entry makes the
  loop raise and some library is kept, a report is produced whatever the count requests
  are answered, so also when every recorded count is 0.
\<close>

theorem empty_result_iff_nothing_survives:
  assumes "listing cfg w libraries"
  shows "(fst (fetch_jellyfin_libraries cfg w) = Inl NoStatistics
            \<longleftrightarrow> (\<forall>l\<in>set libraries. excluded l)) \<and>
         (fst (fetch_jellyfin_libraries cfg w) = Inl NoStatistics \<longrightarrow>
            outcome (update_stats force_update cfg w) \<noteq> Returned True \<and>
            edits (update_stats force_update cfg w) = []) \<and>
         ((\<forall>l\<in>set libraries. well_formed l) \<and> (\<exists>l\<in>set libraries. survives l) \<longrightarrow>
            (\<forall>answers. \<exists>report.
               fst (fetch_jellyfin_libraries cfg (w\<lparr>http_items := answers\<rparr>)) = Inr report))"
proof -
  have only_if: "\<forall>l\<in>set libraries. excluded l"
    if n: "fst (fetch_jellyfin_libraries cfg w) = Inl NoStatistics"
  proof -
    from assms n have wf: "\<forall>l\<in>set libraries. well_formed l"
      by (blast intro: listing_report_well_formed [rule_format])
    from n have "retained libraries = []"
      by (simp add: listing_fetch_well_formed [OF assms wf] split: if_splits)
    then have "\<forall>l\<in>set libraries. \<not> survives l"
      by (simp add: retained_def filter_empty_conv)
    with wf show ?thesis by (auto simp: well_formed_def)
  qed
  have "if": "fst (fetch_jellyfin_libraries cfg w) = Inl NoStatistics"
    if e: "\<forall>l\<in>set libraries. excluded l"
  proof -
    from e have wf: "\<forall>l\<in>set libraries. well_formed l" by (simp add: well_formed_def)
    have "\<not> survives l" if "excluded l" for l
      using that by (cases "lib_name l") (simp_all add: excluded_def survives_def)
    with e have "retained libraries = []"
      by (auto simp: retained_def filter_empty_conv)
    then show ?thesis by (simp add: listing_fetch_well_formed [OF assms wf])
  qed
  have quiet: "outcome (update_stats force_update cfg w) \<noteq> Returned True \<and>
               edits (update_stats force_update cfg w) = []"
    if "fst (fetch_jellyfin_libraries cfg w) = Inl NoStatistics"
    using that
    by (cases "fetch_jellyfin_libraries cfg w")
       (simp add: update_stats_def failed_def Let_def)
  have counts: "\<exists>report. fst (fetch_jellyfin_libraries cfg (w\<lparr>http_items := answers\<rparr>)) = Inr report"
    if a: "(\<forall>l\<in>set libraries. well_formed l) \<and> (\<exists>l\<in>set libraries. survives l)" for answers
  proof -
    from a have wf: "\<forall>l\<in>set libraries. well_formed l" by simp
    from a have ne: "retained libraries \<noteq> []" by (auto simp: retained_def filter_empty_conv)
    from assms have l: "listing cfg (w\<lparr>http_items := answers\<rparr>) libraries"
      by (simp add: listing_items_irrelevant)
    from ne show ?thesis by (simp add: listing_fetch_well_formed [OF l wf])
  qed
  from only_if "if" quiet counts show ?thesis by blast
qed

theorem empty_result_iff_nothing_survives_witness:
  "fst (fetch_jellyfin_libraries example_config playlists_only_world) = Inl NoStatistics \<and>
   edits (update_stats False example_config playlists_only_world) = [] \<and>
   outcome (update_stats False example_config playlists_only_world) = Returned False \<and>
   fst (fetch_jellyfin_libraries example_config failing_counts_world)
     = Inr [(''Movies'', 0), (''Shows'', 0)] \<and>
   outcome (update_stats False example_config failing_counts_world) = Returned True"
proof -
  have p: "is_playlist ''Playlists''" "\<not> is_playlist ''Movies''" "\<not> is_playlist ''Shows''"
    by (simp_all add: is_playlist_def lower_def lower_char_def)
  have l1: "listing example_config playlists_only_world [example_libraries ! 2]"
    by (simp add: listing_def eval_defs)
  have x: "\<forall>l\<in>set [example_libraries ! 2]. excluded l"
    using p by (simp add: example_libraries_def excluded_def)
  have l2: "listing example_config example_world example_libraries"
    by (simp add: listing_def eval_defs)
  have wf: "(\<forall>l\<in>set example_libraries. well_formed l) \<and> (\<exists>l\<in>set example_libraries. survives l)"
    using p by (simp add: example_libraries_def well_formed_def excluded_def survives_def)
  have w: "failing_counts_world
             = example_world\<lparr>http_items := (\<lambda>n rq. Response 500 ItemsUnparsable)\<rparr>"
    by (simp add: failing_counts_world_def)
  have f: "fst (fetch_jellyfin_libraries example_config failing_counts_world)
             = Inr [(''Movies'', 0), (''Shows'', 0)]"
    by (simp add: eval_defs)
  have o: "outcome (update_stats False example_config playlists_only_world) = Returned False"
          "outcome (update_stats False example_config failing_counts_world) = Returned True"
    by (simp_all add: eval_defs)
  from empty_result_iff_nothing_survives [OF l1, of False]
       empty_result_iff_nothing_survives [OF l2, of False] x wf w f o
  show ?thesis by simp
qed

end
